theory Spec2Isabelle
  imports Main "HOL-Library.Sublist"
begin

section \<open>Python string operations used by the file tools\<close>

text \<open>
  A Python \<open>str\<close> is modelled as a \<open>string\<close> holding its UTF-8 bytes. Substring
  search, counting, replacement and suffix tests on valid UTF-8 agree with the same
  operations on code points; only \<open>len\<close> differs and is modelled by \<open>py_len\<close>.
\<close>

text \<open>\<open>sub in s\<close>\<close>

fun py_in :: "string \<Rightarrow> string \<Rightarrow> bool" where
  "py_in sub [] = (sub = [])"
| "py_in sub (c # cs) = (prefix sub (c # cs) \<or> py_in sub cs)"

text \<open>
  \<open>s.count(sub)\<close>: the number of non-overlapping occurrences, scanning from the left;
  the empty string is counted once at every position, \<open>len(s) + 1\<close> times.
\<close>

function py_count :: "string \<Rightarrow> string \<Rightarrow> nat" where
  "py_count s sub =
     (if sub = [] then Suc (length s)
      else if s = [] then 0
      else if prefix sub s then Suc (py_count (drop (length sub) s) sub)
      else py_count (tl s) sub)"
  by pat_completeness auto
termination
  by (relation "measure (\<lambda>(s, sub). length s)") (auto simp: prefix_def)

declare py_count.simps [simp del]

text \<open>\<open>s.replace(old, new, 1)\<close>: only the leftmost occurrence is replaced.\<close>

fun py_replace1 :: "string \<Rightarrow> string \<Rightarrow> string \<Rightarrow> string" where
  "py_replace1 [] old new = (if old = [] then new else [])"
| "py_replace1 (c # cs) old new =
     (if prefix old (c # cs) then new @ drop (length old) (c # cs)
      else c # py_replace1 cs old new)"

text \<open>\<open>s.endswith(suf)\<close>\<close>

definition endswith :: "string \<Rightarrow> string \<Rightarrow> bool" where
  "endswith s suf = suffix suf s"

text \<open>\<open>len(s)\<close> counts code points: the bytes that are not UTF-8 continuation bytes.\<close>

definition py_len :: "string \<Rightarrow> nat" where
  "py_len s = length (filter (\<lambda>c. \<not> (128 \<le> (of_char c :: nat) \<and> (of_char c :: nat) < 192)) s)"


text \<open>\<open>str(n)\<close> for a non-negative integer.\<close>

function str_of_nat :: "nat \<Rightarrow> string" where
  "str_of_nat n =
     (if n < 10 then [''0123456789'' ! n]
      else str_of_nat (n div 10) @ [''0123456789'' ! (n mod 10)])"
  by pat_completeness auto
termination
  by (relation "measure id") auto

declare str_of_nat.simps [simp del]

section \<open>Exceptions and outcomes\<close>

text \<open>
  A Python exception is kept as its optional \<open>status_code\<close> attribute and its text
  \<open>str(e)\<close>. A call of the source either returns a value or raises. The exceptions
  are instances of \<open>Exception\<close>; interrupts, exits and cancellation are outside the
  model.
\<close>

datatype exn = Exn (status_code: "int option") (exn_text: string)

datatype 'a outcome = Return 'a | Raise exn

section \<open>The file store\<close>

text \<open>
  The operating system's view of the files: the working directory, the entries by
  absolute path, and the time the system stamps on the next write. Modification times
  are the values of \<open>os.path.getmtime\<close>; the source only compares them and tests them
  for truth, so they are integers in the unit of the clock. A file holds the bytes of a
  valid UTF-8 text, for which the latin-1 fallbacks of the tools are not taken; permission
  and device faults are outside the store.
\<close>

datatype node = File (node_content: string) (mtime: int) | Dir (mtime: int)

record fs =
  cwd :: string
  nodes :: "string \<rightharpoonup> node"
  now :: int

type_synonym ledger = "string \<rightharpoonup> int"

text \<open>\<open>os.path.isabs\<close>, \<open>os.path.join\<close> (POSIX) and the resolution every tool starts with.\<close>

definition isabs :: "string \<Rightarrow> bool" where
  "isabs p = prefix ''/'' p"

definition path_join :: "string \<Rightarrow> string \<Rightarrow> string" where
  "path_join a b =
     (if isabs b then b
      else if a = [] \<or> endswith a ''/'' then a @ b
      else a @ ''/'' @ b)"

definition full_path :: "fs \<Rightarrow> string \<Rightarrow> string" where
  "full_path s file_path = (if isabs file_path then file_path else path_join (cwd s) file_path)"

text \<open>\<open>os.path.dirname(p) or '.'\<close>\<close>

definition dirname :: "string \<Rightarrow> string" where
  "dirname p =
     (let head = rev (dropWhile (\<lambda>c. c \<noteq> CHR ''/'') (rev p))
      in if head \<noteq> [] \<and> list_ex (\<lambda>c. c \<noteq> CHR ''/'') head
         then rev (dropWhile (\<lambda>c. c = CHR ''/'') (rev head)) else head)"

definition dirname_or_dot :: "string \<Rightarrow> string" where
  "dirname_or_dot p = (if dirname p = [] then ''.'' else dirname p)"

definition path_exists :: "fs \<Rightarrow> string \<Rightarrow> bool" where
  "path_exists s p = (nodes s p \<noteq> None)"

definition isdir :: "fs \<Rightarrow> string \<Rightarrow> bool" where
  "isdir s p = (case nodes s p of Some (Dir _) \<Rightarrow> True | _ \<Rightarrow> False)"

text \<open>\<open>os.path.getmtime\<close>: raises \<open>OSError\<close> on a missing path.\<close>

definition getmtime :: "fs \<Rightarrow> string \<Rightarrow> exn + int" where
  "getmtime s p =
     (case nodes s p of
        None \<Rightarrow> Inl (Exn None (''[Errno 2] No such file or directory: '' @ p))
      | Some n \<Rightarrow> Inr (mtime n))"

text \<open>\<open>os.path.getsize\<close>, in bytes; a directory has the size of its entry, here 0.\<close>

definition getsize :: "fs \<Rightarrow> string \<Rightarrow> nat" where
  "getsize s p = (case nodes s p of Some (File c _) \<Rightarrow> length c | _ \<Rightarrow> 0)"

text \<open>
  Reading in text mode translates line ends (universal newlines): \<open>\r\n\<close> and a lone
  \<open>\r\<close> become \<open>\n\<close>. Writing in text mode on POSIX writes the text as it is.
\<close>

fun universal_newlines :: "string \<Rightarrow> string" where
  "universal_newlines [] = []"
| "universal_newlines [c] = (if c = CHR 0x0D then [CHR 0x0A] else [c])"
| "universal_newlines (c # d # ds) =
     (if c = CHR 0x0D
      then (if d = CHR 0x0A then CHR 0x0A # universal_newlines ds
            else CHR 0x0A # universal_newlines (d # ds))
      else c # universal_newlines (d # ds))"

text \<open>\<open>open(p, 'rb').read()\<close>\<close>

definition read_bytes :: "fs \<Rightarrow> string \<Rightarrow> exn + string" where
  "read_bytes s p =
     (case nodes s p of
        None \<Rightarrow> Inl (Exn None (''[Errno 2] No such file or directory: '' @ p))
      | Some (Dir _) \<Rightarrow> Inl (Exn None (''[Errno 21] Is a directory: '' @ p))
      | Some (File c _) \<Rightarrow> Inr c)"

text \<open>\<open>_read_file\<close>: \<open>open(p, 'r').read()\<close>.\<close>

definition read_file :: "fs \<Rightarrow> string \<Rightarrow> exn + string" where
  "read_file s p =
     (case read_bytes s p of
        Inl e \<Rightarrow> Inl e
      | Inr c \<Rightarrow> Inr (universal_newlines c))"

text \<open>\<open>_write_file\<close>: \<open>open(p, 'w').write(content)\<close>; the file gets the current time.\<close>

definition write_file :: "fs \<Rightarrow> string \<Rightarrow> string \<Rightarrow> exn + fs" where
  "write_file s p c =
     (case nodes s p of
        Some (Dir _) \<Rightarrow> Inl (Exn None (''[Errno 21] Is a directory: '' @ p))
      | _ \<Rightarrow> Inr (s\<lparr>nodes := (nodes s)(p \<mapsto> File c (now s))\<rparr>))"

text \<open>
  \<open>os.makedirs(d, exist_ok=True)\<close>: nothing to do for a directory that is there, an
  error for a regular file in its place, and a new directory otherwise. Ancestors are not
  tracked by the store.
\<close>

definition makedirs :: "fs \<Rightarrow> string \<Rightarrow> exn + fs" where
  "makedirs s d =
     (case nodes s d of
        Some (File _ _) \<Rightarrow> Inl (Exn None (''[Errno 17] File exists: '' @ d))
      | Some (Dir _) \<Rightarrow> Inr s
      | None \<Rightarrow> Inr (s\<lparr>nodes := (nodes s)(d \<mapsto> Dir (now s))\<rparr>))"

text \<open>
  The truth test \<open>not read_timestamp\<close> on the result of \<open>dict.get\<close>: true for a missing
  key and for the timestamp \<open>0.0\<close>.
\<close>

definition not_ts :: "int option \<Rightarrow> bool" where
  "not_ts t = (case t of None \<Rightarrow> True | Some v \<Rightarrow> v = 0)"

section \<open>EditTool\<close>

definition msg_noop :: string where
  "msg_noop = ''No changes to make: old_string and new_string are exactly the same.''"

definition msg_exists :: string where
  "msg_exists = ''Cannot create new file - file already exists.''"

definition msg_missing :: string where
  "msg_missing = ''File does not exist.''"

definition msg_notebook :: string where
  "msg_notebook = ''File is a Jupyter Notebook. Use a notebook edit tool instead.''"

definition msg_unread :: string where
  "msg_unread = ''File has not been read yet. Read it first before writing to it.''"

definition msg_stale :: string where
  "msg_stale = ''File has been modified since read, either by the user or by a linter. Read it again before attempting to write it.''"

definition msg_not_found :: string where
  "msg_not_found = ''String to replace not found in file.''"

definition msg_matches :: "nat \<Rightarrow> string" where
  "msg_matches n = ''Found '' @ str_of_nat n @ '' matches of the string to replace. For safety, this tool only supports replacing exactly one occurrence at a time. Add more lines of context to your edit and try again.''"

text \<open>\<open>EditTool.validate_input\<close>, returning \<open>(is_valid, error_message)\<close>.\<close>

definition validate_input :: "fs \<Rightarrow> string \<Rightarrow> string \<Rightarrow> string \<Rightarrow> ledger \<Rightarrow> bool \<times> string option" where
  "validate_input s file_path old_string new_string read_file_timestamps =
     (if old_string = new_string then (False, Some msg_noop)
      else let full_file_path = full_path s file_path in
        if path_exists s full_file_path \<and> old_string = [] then (False, Some msg_exists)
        else if \<not> path_exists s full_file_path \<and> old_string = [] then (True, None)
        else if \<not> path_exists s full_file_path then (False, Some msg_missing)
        else if endswith full_file_path ''.ipynb'' then (False, Some msg_notebook)
        else let read_timestamp = read_file_timestamps full_file_path in
          if not_ts read_timestamp then (False, Some msg_unread)
          else (case getmtime s full_file_path of
                  Inl e \<Rightarrow> (False, Some (''Cannot access file: '' @ exn_text e))
                | Inr last_write_time \<Rightarrow>
                    if last_write_time > the read_timestamp then (False, Some msg_stale)
                    else (case read_file s full_file_path of
                            Inl e \<Rightarrow> (False, Some (''Cannot read file: '' @ exn_text e))
                          | Inr file_content \<Rightarrow>
                              if \<not> py_in old_string file_content then (False, Some msg_not_found)
                              else let matches = py_count file_content old_string in
                                if matches > 1 then (False, Some (msg_matches matches))
                                else (True, None))))"

text \<open>
  The result dictionary of \<open>EditTool.execute\<close>. The display fields \<open>diff\<close>, \<open>snippet\<close>
  and \<open>start_line\<close> are computed from \<open>original_file\<close>, \<open>updated_file\<close> and the
  arguments without touching the store or the ledger, and are left out.
\<close>

datatype edit_result =
  EditFailure (error: "string option") (result_path: string)
| EditSuccess (result_path: string) (original_file: string) (updated_file: string)

text \<open>
  \<open>EditTool.execute\<close>. The ledger is the caller's dictionary, mutated in place by the
  source; here it is passed in and returned together with the store.
\<close>

definition edit_execute :: "fs \<Rightarrow> string \<Rightarrow> string \<Rightarrow> string \<Rightarrow> ledger \<Rightarrow> edit_result outcome \<times> fs \<times> ledger" where
  "edit_execute s file_path old_string new_string read_file_timestamps =
     (case validate_input s file_path old_string new_string read_file_timestamps of
        (False, error_msg) \<Rightarrow> (Return (EditFailure error_msg file_path), s, read_file_timestamps)
      | (True, _) \<Rightarrow>
          let full_file_path = full_path s file_path in
          (case makedirs s (dirname_or_dot full_file_path) of
             Inl e \<Rightarrow> (Raise e, s, read_file_timestamps)
           | Inr s1 \<Rightarrow>
               (case (if path_exists s1 full_file_path then read_file s1 full_file_path else Inr []) of
                  Inl e \<Rightarrow> (Raise e, s1, read_file_timestamps)
                | Inr original \<Rightarrow>
                    let updated = (if old_string = [] then new_string
                                   else py_replace1 original old_string new_string) in
                    (case write_file s1 full_file_path updated of
                       Inl e \<Rightarrow>
                         (Return (EditFailure (Some (''Failed to write file: '' @ exn_text e)) file_path),
                          s1, read_file_timestamps)
                     | Inr s2 \<Rightarrow>
                         (Return (EditSuccess file_path original updated), s2,
                          (case getmtime s2 full_file_path of
                             Inl _ \<Rightarrow> read_file_timestamps
                           | Inr m \<Rightarrow> read_file_timestamps(full_file_path \<mapsto> m)))))))"

section \<open>WriteTool\<close>

datatype write_result =
  WriteFailure (write_error: string) (written_path: string)
| WriteSuccess (written_path: string) (written_content: string) (write_type: string)

text \<open>
  \<open>WriteTool.execute\<close>. The checks on an existing target come first and yield the
  error text; \<open>diff\<close> is a display field and is left out, as for the edit tool.
\<close>

definition write_checks :: "fs \<Rightarrow> string \<Rightarrow> ledger \<Rightarrow> string option" where
  "write_checks s full_file_path read_file_timestamps =
     (if endswith full_file_path ''.ipynb'' then Some msg_notebook
      else let read_timestamp = read_file_timestamps full_file_path in
        if not_ts read_timestamp then Some msg_unread
        else (case getmtime s full_file_path of
                Inl e \<Rightarrow> Some (''Cannot access file: '' @ exn_text e)
              | Inr last_write_time \<Rightarrow>
                  if last_write_time > the read_timestamp then Some msg_stale else None))"

definition write_execute :: "fs \<Rightarrow> string \<Rightarrow> string \<Rightarrow> ledger \<Rightarrow> write_result \<times> fs \<times> ledger" where
  "write_execute s file_path content read_file_timestamps =
     (let full_file_path = full_path s file_path;
          file_exists = path_exists s full_file_path in
      case (if file_exists then write_checks s full_file_path read_file_timestamps else None) of
        Some err \<Rightarrow> (WriteFailure err file_path, s, read_file_timestamps)
      | None \<Rightarrow>
          (case (if file_exists then read_file s full_file_path else Inr []) of
             Inl e \<Rightarrow>
               (WriteFailure (''Cannot read existing file: '' @ exn_text e) file_path,
                s, read_file_timestamps)
           | Inr old_content \<Rightarrow>
               (case makedirs s (dirname_or_dot full_file_path) of
                  Inl e \<Rightarrow>
                    (WriteFailure (''Cannot create directory: '' @ exn_text e) file_path,
                     s, read_file_timestamps)
                | Inr s1 \<Rightarrow>
                    (case write_file s1 full_file_path content of
                       Inl e \<Rightarrow>
                         (WriteFailure (''Failed to write file: '' @ exn_text e) file_path,
                          s1, read_file_timestamps)
                     | Inr s2 \<Rightarrow>
                         (WriteSuccess file_path content
                            (if file_exists then ''update'' else ''create''),
                          s2,
                          (case getmtime s2 full_file_path of
                             Inl _ \<Rightarrow> read_file_timestamps
                           | Inr m \<Rightarrow> read_file_timestamps(full_file_path \<mapsto> m)))))))"

section \<open>ReadTool\<close>

definition MAX_OUTPUT_SIZE :: nat where
  "MAX_OUTPUT_SIZE = 262144"

definition MAX_IMAGE_SIZE :: nat where
  "MAX_IMAGE_SIZE = 3932160"

definition IMAGE_EXTENSIONS :: "string list" where
  "IMAGE_EXTENSIONS = [''.png'', ''.jpg'', ''.jpeg'', ''.gif'', ''.bmp'', ''.webp'']"

text \<open>
  The second component of \<open>os.path.splitext\<close>: from the last dot of the file name,
  unless that name has only dots before it.
\<close>

definition splitext_ext :: "string \<Rightarrow> string" where
  "splitext_ext p =
     (let fname = rev (takeWhile (\<lambda>c. c \<noteq> CHR ''/'') (rev p)) in
      if CHR ''.'' \<notin> set fname then []
      else let ext = CHR ''.'' # rev (takeWhile (\<lambda>c. c \<noteq> CHR ''.'') (rev fname));
               stem = take (length fname - length ext) fname
           in if list_ex (\<lambda>c. c \<noteq> CHR ''.'') stem then ext else [])"

text \<open>\<open>str.lower\<close> on the ASCII letters; the extensions compared against are ASCII.\<close>

definition lower_char :: "char \<Rightarrow> char" where
  "lower_char c =
     (if 65 \<le> (of_char c :: nat) \<and> (of_char c :: nat) \<le> 90
      then char_of ((of_char c :: nat) + 32) else c)"

definition lower :: "string \<Rightarrow> string" where
  "lower s = map lower_char s"

definition is_image_file :: "string \<Rightarrow> bool" where
  "is_image_file file_path = (lower (splitext_ext file_path) \<in> set IMAGE_EXTENSIONS)"

text \<open>\<open>f.readlines()\<close> on the translated text: the lines with their newline kept.\<close>

fun readlines_acc :: "string \<Rightarrow> string \<Rightarrow> string list" where
  "readlines_acc cur [] = (if cur = [] then [] else [rev cur])"
| "readlines_acc cur (c # cs) =
     (if c = CHR 0x0A then rev (c # cur) # readlines_acc [] cs
      else readlines_acc (c # cur) cs)"

definition readlines :: "string \<Rightarrow> string list" where
  "readlines s = readlines_acc [] s"

text \<open>The slice \<open>xs[start:stop]\<close> for \<open>start \<ge> 0\<close>; a negative \<open>stop\<close> counts from the end.\<close>

definition py_slice :: "'a list \<Rightarrow> int \<Rightarrow> int \<Rightarrow> 'a list" where
  "py_slice xs start stop =
     (let n = int (length xs);
          lo = min start n;
          hi = (if stop < 0 then max (stop + n) 0 else min stop n)
      in take (nat (hi - lo)) (drop (nat lo) xs))"

text \<open>Truth of an optional integer argument: \<open>None\<close> and \<open>0\<close> are false.\<close>

definition truthy :: "int option \<Rightarrow> bool" where
  "truthy v = (case v of None \<Rightarrow> False | Some n \<Rightarrow> n \<noteq> 0)"

text \<open>\<open>ReadTool._read_text_file\<close>, returning \<open>(content, line_count, total_lines)\<close>.\<close>

definition read_text_file :: "fs \<Rightarrow> string \<Rightarrow> int option \<Rightarrow> int option \<Rightarrow> exn + (string \<times> nat \<times> nat)" where
  "read_text_file s file_path offset limit =
     (case read_file s file_path of
        Inl e \<Rightarrow> Inl e
      | Inr data \<Rightarrow>
          let all_lines = readlines data;
              total_lines = length all_lines;
              start_idx = max 0 (if truthy offset then the offset - 1 else 0);
              selected_lines =
                (if truthy limit then py_slice all_lines start_idx (start_idx + the limit)
                 else drop (nat start_idx) all_lines)
          in Inr (concat selected_lines, length selected_lines, total_lines))"

text \<open>
  The \<open>.0f\<close> and \<open>.2f\<close> renderings of \<open>n / d\<close> for a power of two \<open>d\<close>: the
  quotient is exact in binary floating point and is rounded half to even.
\<close>

definition round_half_even :: "nat \<Rightarrow> nat \<Rightarrow> nat" where
  "round_half_even n d =
     (let q = n div d; r = n mod d
      in if 2 * r > d \<or> (2 * r = d \<and> odd q) then q + 1 else q)"

definition fmt_0f :: "nat \<Rightarrow> nat \<Rightarrow> string" where
  "fmt_0f n d = str_of_nat (round_half_even n d)"

definition fmt_2f :: "nat \<Rightarrow> nat \<Rightarrow> string" where
  "fmt_2f n d =
     (let h = round_half_even (n * 100) d
      in str_of_nat (h div 100) @ ''.'' @ str_of_nat (h mod 100 div 10) @ str_of_nat (h mod 10))"

datatype read_result =
  ReadFailure (read_error: string) (read_path: string)
| ReadImage (image_data: string) (media_type: string) (read_path: string)
| ReadText (read_path: string) (read_content: string) (line_count: nat) (total_lines: nat)
    (start_line: int)

text \<open>
  \<open>ReadTool._read_image_file\<close>; the result carries the bytes that the source hands on
  in base64.
\<close>

definition read_image_file :: "fs \<Rightarrow> string \<Rightarrow> exn + read_result" where
  "read_image_file s file_path =
     (case read_bytes s file_path of
        Inl e \<Rightarrow> Inl e
      | Inr data \<Rightarrow>
          let ext = lower (splitext_ext file_path)
          in Inr (ReadImage data
                    (if ext = ''.jpg'' then ''image/jpeg'' else ''image/'' @ tl ext) file_path))"

definition record_read :: "fs \<Rightarrow> string \<Rightarrow> ledger option \<Rightarrow> exn + ledger option" where
  "record_read s full_file_path read_file_timestamps =
     (case read_file_timestamps of
        None \<Rightarrow> Inr None
      | Some l \<Rightarrow>
          (case getmtime s full_file_path of
             Inl e \<Rightarrow> Inl e
           | Inr m \<Rightarrow> Inr (Some (l(full_file_path \<mapsto> m)))))"

text \<open>\<open>ReadTool.execute\<close>; the ledger argument is optional in the source.\<close>

definition read_execute :: "fs \<Rightarrow> string \<Rightarrow> int option \<Rightarrow> int option \<Rightarrow> ledger option \<Rightarrow> read_result \<times> ledger option" where
  "read_execute s file_path offset limit read_file_timestamps =
     (let full_file_path = full_path s file_path in
      if \<not> path_exists s full_file_path
      then (ReadFailure ''File does not exist.'' file_path, read_file_timestamps)
      else if isdir s full_file_path
      then (ReadFailure ''Path is a directory, not a file.'' file_path, read_file_timestamps)
      else let file_size = getsize s full_file_path in
        if is_image_file full_file_path then
          (if file_size > MAX_IMAGE_SIZE
           then (ReadFailure (''Image file too large ('' @ fmt_2f file_size (1024 * 1024)
                   @ ''MB). Maximum size is '' @ fmt_2f MAX_IMAGE_SIZE (1024 * 1024) @ ''MB.'')
                   file_path, read_file_timestamps)
           else (case read_image_file s full_file_path of
                   Inl e \<Rightarrow>
                     (ReadFailure (''Failed to read file: '' @ exn_text e) file_path,
                      read_file_timestamps)
                 | Inr result \<Rightarrow>
                     (case record_read s full_file_path read_file_timestamps of
                        Inl e \<Rightarrow>
                          (ReadFailure (''Failed to read file: '' @ exn_text e) file_path,
                           read_file_timestamps)
                      | Inr l \<Rightarrow> (result, l))))
        else if file_size > MAX_OUTPUT_SIZE \<and> \<not> truthy offset \<and> \<not> truthy limit
        then (ReadFailure (''File too large ('' @ fmt_0f file_size 1024
                @ ''KB). Maximum size is '' @ fmt_0f MAX_OUTPUT_SIZE 1024
                @ ''KB. Use offset and limit parameters to read specific portions.'')
                file_path, read_file_timestamps)
        else (case read_text_file s full_file_path offset limit of
                Inl e \<Rightarrow>
                  (ReadFailure (''Failed to read file: '' @ exn_text e) file_path,
                   read_file_timestamps)
              | Inr (content, n_lines, n_total) \<Rightarrow>
                  if py_len content > MAX_OUTPUT_SIZE
                  then (ReadFailure (''File content too large ('' @ fmt_0f (py_len content) 1024
                          @ ''KB). Use offset and limit parameters to read specific portions.'')
                          file_path, read_file_timestamps)
                  else (case record_read s full_file_path read_file_timestamps of
                          Inl e \<Rightarrow>
                            (ReadFailure (''Failed to read file: '' @ exn_text e) file_path,
                             read_file_timestamps)
                        | Inr l \<Rightarrow>
                            (ReadText file_path content n_lines n_total
                               (if truthy offset then the offset else 1), l))))"

section \<open>OpenAIClient.query\<close>

record tool_call =
  tc_id :: string
  tc_type :: string
  tc_name :: string
  tc_arguments :: string

text \<open>
  The part of a completion the loop reads: \<open>choices[0].message.content\<close>, its
  \<open>tool_calls\<close> (\<open>None\<close> and the empty list are both false, so a list),
  \<open>usage.total_tokens\<close> when \<open>usage\<close> is there, and \<open>choices[0].finish_reason\<close>.
\<close>

record response =
  resp_content :: "string option"
  resp_tool_calls :: "tool_call list"
  resp_usage :: "nat option"
  resp_finish_reason :: string

record message =
  role :: string
  msg_content :: "string option"
  msg_name :: "string option"
  msg_tool_calls :: "tool_call list option"
  msg_tool_call_id :: "string option"

datatype api_outcome = Response response | Failure exn

text \<open>
  The collaborators of one query. \<open>create k msgs tools\<close> is what the \<open>k\<close>-th call of
  \<open>chat.completions.create\<close> does when given \<open>msgs\<close> and \<open>tools\<close>: it answers or
  raises. \<open>json_loads\<close> is \<open>json.loads\<close>, with \<open>None\<close> for \<open>JSONDecodeError\<close>, and
  \<open>empty_dict\<close> is \<open>{}\<close>.
\<close>

record ('a, 't) env =
  create :: "nat \<Rightarrow> message list \<Rightarrow> 't list option \<Rightarrow> api_outcome"
  json_loads :: "string \<Rightarrow> 'a option"
  empty_dict :: 'a

text \<open>
  The caller's \<open>tool_executor\<close>: from the tool name, the arguments and the state of
  the world it acts on, the rendered result (\<open>json.dumps\<close> of a dictionary, \<open>str\<close> of
  anything else) or the exception it raises, and the new world.
\<close>

type_synonym ('a, 'w) executor = "string \<Rightarrow> 'a \<Rightarrow> 'w \<Rightarrow> string outcome \<times> 'w"

text \<open>
  The local variables of \<open>query\<close>, and what it has done so far: the number of calls
  of the model, the delays it has slept (seconds) and the iterations it has begun.
\<close>

record 'w qstate =
  api_messages :: "message list"
  total_tokens :: nat
  tool_use_count :: nat
  calls :: nat
  slept :: "nat list"
  iterations :: nat
  world :: 'w

record query_result =
  q_content :: string
  q_role :: string
  q_total_tokens :: nat
  q_tool_use_count :: nat
  q_finish_reason :: string

definition retry_attempts :: nat where
  "retry_attempts = 10"

definition backoff_seconds :: nat where
  "backoff_seconds = 2"

definition is_rate_limited :: "exn \<Rightarrow> bool" where
  "is_rate_limited e =
     (let status = status_code e; message_text = lower (exn_text e)
      in status = Some 429 \<or> py_in ''rate limit'' message_text \<or> py_in ''max rpm'' message_text)"

text \<open>
  The inner loop \<open>for attempt in range(retry_attempts)\<close>, over the attempts still to
  make; it leaves \<open>response\<close>, which is \<open>None\<close> if no attempt was made.
\<close>

fun call_with_retry :: "('a, 't) env \<Rightarrow> 't list option \<Rightarrow> nat list \<Rightarrow> 'w qstate \<Rightarrow> response option outcome \<times> 'w qstate" where
  "call_with_retry E tools [] s = (Return None, s)"
| "call_with_retry E tools (attempt # rest) s =
     (case create E (calls s) (api_messages s) tools of
        Response r \<Rightarrow> (Return (Some r), s\<lparr>calls := Suc (calls s)\<rparr>)
      | Failure e \<Rightarrow>
          if is_rate_limited e \<and> attempt < retry_attempts - 1
          then call_with_retry E tools rest
                 (s\<lparr>calls := Suc (calls s),
                    slept := slept s @ [backoff_seconds * 2 ^ attempt]\<rparr>)
          else (Raise e, s\<lparr>calls := Suc (calls s)\<rparr>))"

definition assistant_message :: "response \<Rightarrow> message" where
  "assistant_message r =
     \<lparr>role = ''assistant'',
      msg_content = Some (case resp_content r of None \<Rightarrow> [] | Some c \<Rightarrow> c),
      msg_name = None,
      msg_tool_calls = Some (resp_tool_calls r),
      msg_tool_call_id = None\<rparr>"

definition tool_message :: "tool_call \<Rightarrow> string \<Rightarrow> message" where
  "tool_message tc rendered =
     \<lparr>role = ''tool'', msg_content = Some rendered, msg_name = Some (tc_name tc),
      msg_tool_calls = None, msg_tool_call_id = Some (tc_id tc)\<rparr>"

text \<open>The loop \<open>for tool_call in message.tool_calls\<close>; an exception of the executor ends it.\<close>

fun run_tools :: "('a, 't) env \<Rightarrow> ('a, 'w) executor \<Rightarrow> tool_call list \<Rightarrow> 'w qstate \<Rightarrow> unit outcome \<times> 'w qstate" where
  "run_tools E tool_executor [] s = (Return (), s)"
| "run_tools E tool_executor (tc # tcs) s =
     (let arguments = (case json_loads E (tc_arguments tc) of
                         None \<Rightarrow> empty_dict E | Some a \<Rightarrow> a)
      in case tool_executor (tc_name tc) arguments (world s) of
           (Raise e, w) \<Rightarrow> (Raise e, s\<lparr>world := w\<rparr>)
         | (Return rendered, w) \<Rightarrow>
             run_tools E tool_executor tcs
               (s\<lparr>world := w, api_messages := api_messages s @ [tool_message tc rendered]\<rparr>))"

definition max_iterations_result :: "'w qstate \<Rightarrow> query_result" where
  "max_iterations_result s =
     \<lparr>q_content = ''Maximum tool call iterations reached'', q_role = ''assistant'',
      q_total_tokens = total_tokens s, q_tool_use_count = tool_use_count s,
      q_finish_reason = ''max_iterations''\<rparr>"

definition final_result :: "response \<Rightarrow> 'w qstate \<Rightarrow> query_result" where
  "final_result r s =
     \<lparr>q_content = (case resp_content r of None \<Rightarrow> [] | Some c \<Rightarrow> c),
      q_role = ''assistant'',
      q_total_tokens = total_tokens s, q_tool_use_count = tool_use_count s,
      q_finish_reason = resp_finish_reason r\<rparr>"

text \<open>
  The loop \<open>for iteration in range(max_iterations)\<close>, over the number of iterations
  still to run. Leaving the loop, by exhaustion or by \<open>break\<close>, reaches the final
  \<open>return\<close> of the source.
\<close>

fun query_loop :: "('a, 't) env \<Rightarrow> 't list option \<Rightarrow> ('a, 'w) executor option \<Rightarrow> nat \<Rightarrow> 'w qstate \<Rightarrow> query_result outcome \<times> 'w qstate" where
  "query_loop E tools tool_executor 0 s = (Return (max_iterations_result s), s)"
| "query_loop E tools tool_executor (Suc n) s =
     (case call_with_retry E tools [0..<retry_attempts] (s\<lparr>iterations := Suc (iterations s)\<rparr>) of
        (Raise e, s1) \<Rightarrow> (Raise e, s1)
      | (Return None, s1) \<Rightarrow>
          (Raise (Exn None ''Failed to obtain response from OpenAI after retries''), s1)
      | (Return (Some r), s1) \<Rightarrow>
          let s2 = (case resp_usage r of
                      None \<Rightarrow> s1
                    | Some u \<Rightarrow> s1\<lparr>total_tokens := total_tokens s1 + u\<rparr>)
          in if resp_tool_calls r \<noteq> [] then
               let s3 = s2\<lparr>tool_use_count := tool_use_count s2 + length (resp_tool_calls r),
                             api_messages := api_messages s2 @ [assistant_message r]\<rparr>
               in (case tool_executor of
                     None \<Rightarrow> (Return (max_iterations_result s3), s3)
                   | Some ex \<Rightarrow>
                       (case run_tools E ex (resp_tool_calls r) s3 of
                          (Raise e, s4) \<Rightarrow> (Raise e, s4)
                        | (Return _, s4) \<Rightarrow> query_loop E tools tool_executor n s4))
             else (Return (final_result r s2), s2))"


section \<open>ParallelExecutor and AgentTool\<close>

record agent_config =
  agent_type :: string
  when_to_use :: string
  allowed_tools :: "string list"
  system_prompt :: string
  location :: string

record agent_result =
  agent_index :: int
  content :: string
  agent_tool_use_count :: nat
  tokens :: nat
  duration_ms :: int

text \<open>
  The participants of a fan-out run concurrently on one client, so what a participant's
  call of \<open>query\<close> yields depends on the interleaving. It is given by the run: for the
  participant \<open>i\<close> (\<open>-1\<close> for the synthesis pass) and the arguments of its call, the
  outcome of \<open>query\<close> and the time it took.
\<close>

type_synonym 't run =
  "int \<Rightarrow> message list \<Rightarrow> string \<Rightarrow> 't list option \<Rightarrow> bool \<Rightarrow> int \<Rightarrow> query_result outcome \<times> int"

definition user_message :: "string \<Rightarrow> message" where
  "user_message c =
     \<lparr>role = ''user'', msg_content = Some c, msg_name = None, msg_tool_calls = None,
      msg_tool_call_id = None\<rparr>"

text \<open>
  \<open>ParallelExecutor.execute_agent_task\<close>. \<open>base_prompt\<close> is the text of
  \<open>get_system_prompt()\<close>; \<open>has_executor\<close> tells whether a tool executor is passed on.
\<close>

definition execute_agent_task :: "'t run \<Rightarrow> string \<Rightarrow> string \<Rightarrow> int \<Rightarrow> agent_config \<Rightarrow> 't list option \<Rightarrow> bool \<Rightarrow> int \<Rightarrow> agent_result outcome" where
  "execute_agent_task client base_prompt task_prompt index config functions has_executor max_iterations =
     (let messages = [user_message task_prompt];
          combined_prompt = base_prompt @ [CHR 0x0A, CHR 0x0A] @ system_prompt config
      in case client index messages combined_prompt functions has_executor max_iterations of
           (Raise e, _) \<Rightarrow> Raise e
         | (Return result, d) \<Rightarrow>
             Return \<lparr>agent_index = index, content = q_content result,
                     agent_tool_use_count = q_tool_use_count result, tokens = q_total_tokens result,
                     duration_ms = d\<rparr>)"

definition failed_result :: "nat \<Rightarrow> exn \<Rightarrow> agent_result" where
  "failed_result i e =
     \<lparr>agent_index = int i, content = ''Agent execution failed: '' @ exn_text e,
      agent_tool_use_count = 0, tokens = 0, duration_ms = 0\<rparr>"

text \<open>
  \<open>ParallelExecutor.execute_parallel_tasks\<close>: \<open>asyncio.gather\<close> with
  \<open>return_exceptions=True\<close> hands back the outcome of every task in the order of the
  tasks, and the loop over \<open>enumerate(results)\<close> replaces each exception.
\<close>

definition execute_parallel_tasks :: "'t run \<Rightarrow> string \<Rightarrow> string \<Rightarrow> agent_config \<Rightarrow> int \<Rightarrow> 't list option \<Rightarrow> bool \<Rightarrow> int \<Rightarrow> agent_result list" where
  "execute_parallel_tasks client base_prompt task_prompt config num_agents functions has_executor max_iterations =
     (let results =
            map (\<lambda>i. execute_agent_task client base_prompt
                        (task_prompt @ [CHR 0x0A, CHR 0x0A] @ ''Provide a thorough and complete analysis.'')
                        (int i) config functions has_executor max_iterations)
                [0..<nat num_agents]
      in map (\<lambda>(i, result). case result of Raise e \<Rightarrow> failed_result i e | Return r \<Rightarrow> r)
             (zip [0..<length results] results))"

text \<open>\<open>str(n)\<close> for an integer.\<close>

definition str_of_int :: "int \<Rightarrow> string" where
  "str_of_int n = (if n < 0 then CHR ''-'' # str_of_nat (nat (- n)) else str_of_nat (nat n))"

text \<open>\<open>sep.join(xs)\<close>\<close>

fun join :: "string \<Rightarrow> string list \<Rightarrow> string" where
  "join sep [] = []"
| "join sep [x] = x"
| "join sep (x # y # ys) = x @ sep @ join sep (y # ys)"

definition synthesis_prompt :: "string \<Rightarrow> agent_result list \<Rightarrow> string" where
  "synthesis_prompt original_task agent_results =
     (let results_text =
            map (\<lambda>r. ''== AGENT '' @ str_of_int (agent_index r + 1) @ '' RESPONSE =='' @ [CHR 0x0A]
                       @ content r @ [CHR 0x0A])
                (sort_key agent_index agent_results)
      in ''Original task: '' @ original_task @ [CHR 0x0A, CHR 0x0A]
         @ ''I'' @ [CHR 0x27] @ ''ve assigned multiple agents to tackle this task. Each agent has analyzed the problem and provided their findings.''
         @ [CHR 0x0A, CHR 0x0A] @ join [CHR 0x0A] results_text @ [CHR 0x0A, CHR 0x0A]
         @ ''Based on all the information provided by these agents, synthesize a comprehensive and cohesive response that:''
         @ [CHR 0x0A] @ ''1. Combines the key insights from all agents''
         @ [CHR 0x0A] @ ''2. Resolves any contradictions between agent findings''
         @ [CHR 0x0A] @ ''3. Presents a unified solution that addresses the original task''
         @ [CHR 0x0A] @ ''4. Includes all important details from the individual responses''
         @ [CHR 0x0A] @ ''5. Is well-structured and complete''
         @ [CHR 0x0A, CHR 0x0A]
         @ ''Your synthesis should be thorough but focused on the original task.'')"

text \<open>\<open>ParallelExecutor.synthesize_results\<close>: one turn, no tools, no executor.\<close>

definition synthesize_results :: "'t run \<Rightarrow> string \<Rightarrow> string \<Rightarrow> agent_result list \<Rightarrow> agent_config \<Rightarrow> agent_result outcome" where
  "synthesize_results client base_prompt original_task agent_results config =
     (let messages = [user_message (synthesis_prompt original_task agent_results)];
          combined_prompt = base_prompt @ [CHR 0x0A, CHR 0x0A] @ system_prompt config
      in case client (- 1) messages combined_prompt None False 1 of
           (Raise e, _) \<Rightarrow> Raise e
         | (Return result, d) \<Rightarrow>
             Return \<lparr>agent_index = - 1, content = q_content result, agent_tool_use_count = 0,
                     tokens = q_total_tokens result, duration_ms = d\<rparr>)"

text \<open>
  The result dictionary of \<open>AgentTool.execute\<close>; the keys \<open>parallel_agents\<close> and
  \<open>synthesis\<close> are absent when the agent type is unknown.
\<close>

record agent_tool_result =
  at_content :: string
  at_tool_use_count :: nat
  at_tokens :: nat
  at_parallel_agents :: "int option"
  at_synthesis :: "bool option"

text \<open>
  \<open>find_agent_by_type\<close> on the agents that \<open>load_all_agents\<close> has found, and the filter
  of the tool schemas by the agent's allowed names; \<open>schema_name\<close> reads the name of a
  schema, \<open>f.get("function", {}).get("name")\<close>.
\<close>

definition find_agent_by_type :: "agent_config list \<Rightarrow> string \<Rightarrow> agent_config option" where
  "find_agent_by_type agents t = find (\<lambda>a. agent_type a = t) agents"

definition agent_functions :: "('t \<Rightarrow> string option) \<Rightarrow> agent_config \<Rightarrow> 't list option \<Rightarrow> 't list option" where
  "agent_functions schema_name config functions =
     (case functions of
        None \<Rightarrow> None
      | Some fs \<Rightarrow>
          if allowed_tools config \<noteq> [''*''] \<and> fs \<noteq> []
          then Some (filter (\<lambda>f. case schema_name f of
                                     None \<Rightarrow> False
                                   | Some n \<Rightarrow> n \<in> set (allowed_tools config)) fs)
          else Some fs)"

definition agent_tool_execute :: "'t run \<Rightarrow> string \<Rightarrow> agent_config list \<Rightarrow> ('t \<Rightarrow> string option) \<Rightarrow> string \<Rightarrow> string \<Rightarrow> 't list option \<Rightarrow> bool \<Rightarrow> int \<Rightarrow> agent_tool_result outcome" where
  "agent_tool_execute client base_prompt agents schema_name prompt subagent_type functions has_executor parallel_count =
     (case find_agent_by_type agents subagent_type of
        None \<Rightarrow>
          Return \<lparr>at_content = ''Error: Agent type '' @ [CHR 0x27] @ subagent_type @ [CHR 0x27]
                    @ '' not found'',
                  at_tool_use_count = 0, at_tokens = 0, at_parallel_agents = None,
                  at_synthesis = None\<rparr>
      | Some config \<Rightarrow>
          let fs = agent_functions schema_name config functions in
          if parallel_count > 1 then
            let agent_results =
                  execute_parallel_tasks client base_prompt prompt config parallel_count fs
                    has_executor 10
            in (case synthesize_results client base_prompt prompt agent_results config of
                  Raise e \<Rightarrow> Raise e
                | Return synthesis_result \<Rightarrow>
                    Return \<lparr>at_content = content synthesis_result,
                            at_tool_use_count = sum_list (map agent_tool_use_count agent_results),
                            at_tokens = sum_list (map tokens agent_results) + tokens synthesis_result,
                            at_parallel_agents = Some parallel_count,
                            at_synthesis = Some True\<rparr>)
          else
            (case execute_agent_task client base_prompt prompt 0 config fs has_executor 10 of
               Raise e \<Rightarrow> Raise e
             | Return result \<Rightarrow>
                 Return \<lparr>at_content = content result, at_tool_use_count = agent_tool_use_count result,
                         at_tokens = tokens result, at_parallel_agents = Some 1,
                         at_synthesis = Some False\<rparr>))"

section \<open>Success of a result\<close>

text \<open>The \<open>success\<close> entry of the result dictionaries.\<close>

definition write_success :: "write_result \<Rightarrow> bool" where
  "write_success r = (case r of WriteSuccess _ _ _ \<Rightarrow> True | WriteFailure _ _ \<Rightarrow> False)"

definition read_success :: "read_result \<Rightarrow> bool" where
  "read_success r = (case r of ReadFailure _ _ \<Rightarrow> False | _ \<Rightarrow> True)"

section \<open>Example inputs\<close>

text \<open>
  A working directory \<open>/w\<close> with the file \<open>a.txt\<close> of the specification's scenario, a
  file with Windows line ends, a notebook, a file with overlapping matches and a file
  stamped with the epoch.
\<close>

definition example_store :: fs where
  "example_store =
     \<lparr>cwd = ''/w'',
      nodes = [''/w'' \<mapsto> Dir 1,
               ''/w/a.txt'' \<mapsto> File ''foo\<newline>bar\<newline>'' 5,
               ''/w/c.txt'' \<mapsto> File [CHR ''f'', CHR ''o'', CHR ''o'', CHR 0x0D, CHR 0x0A,
                                    CHR ''b'', CHR ''a'', CHR ''r'', CHR 0x0D, CHR 0x0A] 5,
               ''/w/n.ipynb'' \<mapsto> File ''{}'' 5,
               ''/w/p.txt'' \<mapsto> File ''f(g(x)))'' 5,
               ''/w/z.txt'' \<mapsto> File ''old'' 0],
      now = 9\<rparr>"



definition final_response :: response where
  "final_response =
     \<lparr>resp_content = Some ''done'', resp_tool_calls = [], resp_usage = Some 5,
      resp_finish_reason = ''stop''\<rparr>"


definition limited_env :: "(string, string) env" where
  "limited_env =
     \<lparr>create = (\<lambda>k msgs tools.
         if k = 0 then Failure (Exn (Some 429) ''Too Many Requests'')
         else if k = 1 then Failure (Exn None ''Rate limit reached for requests'')
         else Response final_response),
      json_loads = Some, empty_dict = ''{}''\<rparr>"



definition example_state :: "nat qstate" where
  "example_state =
     \<lparr>api_messages = [], total_tokens = 0, tool_use_count = 0, calls = 0, slept = [],
      iterations = 0, world = 0\<rparr>"

text \<open>
  A fan-out in which the participant 1 raises and the others answer, with the built-in
  agent.
\<close>

definition example_config :: agent_config where
  "example_config =
     \<lparr>agent_type = ''general-purpose'',
      when_to_use = ''General-purpose agent for researching, searching code, and multi-step tasks'',
      allowed_tools = [''*''], system_prompt = ''You are an agent for a coding assistant.'',
      location = ''built-in''\<rparr>"

definition example_run :: "string run" where
  "example_run i msgs prompt functions has_executor max_iterations =
     (if i = 1 then (Raise (Exn None ''connection reset''), 0)
      else if i = - 1
      then (Return \<lparr>q_content = ''unified'', q_role = ''assistant'', q_total_tokens = 4,
                     q_tool_use_count = 0, q_finish_reason = ''stop''\<rparr>, 2)
      else (Return \<lparr>q_content = ''answer'', q_role = ''assistant'', q_total_tokens = 10,
                     q_tool_use_count = 2, q_finish_reason = ''stop''\<rparr>, 5))"

section \<open>Properties of the string operations\<close>

lemma py_in_sublist: "py_in sub s = sublist sub s"
  by (induction s) (simp_all add: sublist_Cons_right)












lemma universal_newlines_id: "CHR 0x0D \<notin> set s \<Longrightarrow> universal_newlines s = s"
  by (induction s rule: universal_newlines.induct) auto

lemma length_universal_newlines: "length (universal_newlines s) \<le> length s"
  by (induction s rule: universal_newlines.induct) auto

section \<open>Editing by a unique match\<close>

lemma makedirs_isdir: "isdir s d \<Longrightarrow> makedirs s d = Inr s"
  by (auto simp: isdir_def makedirs_def split: option.splits node.splits)






section \<open>The guard: unread and stale targets\<close>

lemma write_execute_checked:
  assumes "path_exists s (full_path s p)"
    and "write_checks s (full_path s p) l = Some err"
  shows "write_execute s p c l = (WriteFailure err p, s, l)"
  using assms by (simp add: write_execute_def Let_def)




text \<open>
  Claim C3, as the code has it. For an existing path that is no notebook, whose ledger
  entry is a non-zero timestamp older than the file's modification time, the write fails
  with the stale message and changes neither the store nor the ledger; edit validation
  fails with the same message when \<open>old_string\<close> is not empty and differs from
  \<open>new_string\<close>, and then the edit changes nothing either.
\<close>

theorem stale_rejected:
  assumes "nodes s (full_path s p) = Some n"
    and "\<not> endswith (full_path s p) ''.ipynb''"
    and "l (full_path s p) = Some t" and "t \<noteq> 0" and "t < mtime n"
  shows "write_execute s p c l = (WriteFailure msg_stale p, s, l)
       \<and> (old_string \<noteq> new_string \<and> old_string \<noteq> [] \<longrightarrow>
            validate_input s p old_string new_string l = (False, Some msg_stale)
            \<and> edit_execute s p old_string new_string l
                = (Return (EditFailure (Some msg_stale) p), s, l))"
proof -
  from assms(1) have ex: "path_exists s (full_path s p)" by (simp add: path_exists_def)
  from assms have "write_checks s (full_path s p) l = Some msg_stale"
    by (simp add: write_checks_def not_ts_def getmtime_def)
  with ex have w: "write_execute s p c l = (WriteFailure msg_stale p, s, l)"
    by (rule write_execute_checked)
  have "old_string \<noteq> new_string \<and> old_string \<noteq> [] \<longrightarrow>
            validate_input s p old_string new_string l = (False, Some msg_stale)
            \<and> edit_execute s p old_string new_string l
                = (Return (EditFailure (Some msg_stale) p), s, l)"
  proof
    assume "old_string \<noteq> new_string \<and> old_string \<noteq> []"
    with assms ex have "validate_input s p old_string new_string l = (False, Some msg_stale)"
      by (simp add: validate_input_def not_ts_def getmtime_def)
    then show "validate_input s p old_string new_string l = (False, Some msg_stale)
            \<and> edit_execute s p old_string new_string l
                = (Return (EditFailure (Some msg_stale) p), s, l)"
      by (simp add: edit_execute_def)
  qed
  with w show ?thesis by simp
qed

theorem stale_rejected_witness:
  "nodes example_store (full_path example_store ''a.txt'') = Some (File ''foo\<newline>bar\<newline>'' 5)
   \<and> \<not> endswith (full_path example_store ''a.txt'') ''.ipynb''
   \<and> [''/w/a.txt'' \<mapsto> (3::int)] (full_path example_store ''a.txt'') = Some 3
   \<and> (3::int) \<noteq> 0 \<and> 3 < mtime (File ''foo\<newline>bar\<newline>'' 5)
   \<and> write_execute example_store ''a.txt'' ''new'' [''/w/a.txt'' \<mapsto> 3]
       = (WriteFailure msg_stale ''a.txt'', example_store, [''/w/a.txt'' \<mapsto> 3])
   \<and> validate_input example_store ''a.txt'' ''foo'' ''baz'' [''/w/a.txt'' \<mapsto> 3]
       = (False, Some msg_stale)
   \<and> edit_execute example_store ''a.txt'' ''foo'' ''baz'' [''/w/a.txt'' \<mapsto> 3]
       = (Return (EditFailure (Some msg_stale) ''a.txt''), example_store, [''/w/a.txt'' \<mapsto> 3])"
proof -
  have h1: "nodes example_store (full_path example_store ''a.txt'') = Some (File ''foo\<newline>bar\<newline>'' 5)"
    by code_simp
  have h2: "\<not> endswith (full_path example_store ''a.txt'') ''.ipynb''" by code_simp
  have h3: "[''/w/a.txt'' \<mapsto> (3::int)] (full_path example_store ''a.txt'') = Some 3" by code_simp
  have h4: "(3::int) \<noteq> 0" and h5: "3 < mtime (File ''foo\<newline>bar\<newline>'' 5)" by simp_all
  have h6: "''foo'' \<noteq> ''baz'' \<and> ''foo'' \<noteq> []" by simp
  from h1 h2 h3 h4 h5 h6
    stale_rejected [where s = example_store and p = "''a.txt''"
      and n = "File ''foo\<newline>bar\<newline>'' 5" and l = "[''/w/a.txt'' \<mapsto> 3]" and t = 3
      and c = "''new''" and old_string = "''foo''" and new_string = "''baz''"]
  show ?thesis by blast
qed

text \<open>
  Claim C3 as stated fails for a notebook read at time 3 and modified at time 5: both
  validations answer with the notebook message, not the stale one.
\<close>

theorem stale_notebook_counterexample:
  "nodes example_store (full_path example_store ''n.ipynb'') = Some (File ''{}'' 5)
   \<and> [''/w/n.ipynb'' \<mapsto> (3::int)] (full_path example_store ''n.ipynb'') = Some 3
   \<and> (3::int) < 5
   \<and> validate_input example_store ''n.ipynb'' ''{'' ''['' [''/w/n.ipynb'' \<mapsto> 3]
       = (False, Some msg_notebook)
   \<and> fst (write_execute example_store ''n.ipynb'' ''[]'' [''/w/n.ipynb'' \<mapsto> 3])
       = WriteFailure msg_notebook ''n.ipynb''
   \<and> msg_notebook \<noteq> msg_stale"
  by code_simp

section \<open>What a failed validation leaves behind\<close>

text \<open>
  Claim C9. When \<open>validate_input\<close> answers invalid, \<open>execute\<close> returns the failure
  with that message, and the store and the ledger are those it was given.
\<close>

theorem edit_invalid_no_mutation:
  "\<not> fst (validate_input s p old_string new_string l) \<Longrightarrow>
     edit_execute s p old_string new_string l =
       (Return (EditFailure (snd (validate_input s p old_string new_string l)) p), s, l)"
  by (cases "validate_input s p old_string new_string l") (simp add: edit_execute_def)

theorem edit_invalid_no_mutation_witness:
  "\<not> fst (validate_input example_store ''a.txt'' ''absent'' ''baz'' [''/w/a.txt'' \<mapsto> 5])
   \<and> snd (validate_input example_store ''a.txt'' ''absent'' ''baz'' [''/w/a.txt'' \<mapsto> 5])
       = Some msg_not_found
   \<and> edit_execute example_store ''a.txt'' ''absent'' ''baz'' [''/w/a.txt'' \<mapsto> 5] =
       (Return (EditFailure (Some msg_not_found) ''a.txt''), example_store, [''/w/a.txt'' \<mapsto> 5])"
proof -
  have h: "\<not> fst (validate_input example_store ''a.txt'' ''absent'' ''baz'' [''/w/a.txt'' \<mapsto> 5])"
    by code_simp
  have m: "snd (validate_input example_store ''a.txt'' ''absent'' ''baz'' [''/w/a.txt'' \<mapsto> 5])
       = Some msg_not_found"
    by code_simp
  from edit_invalid_no_mutation [OF h] h m show ?thesis by simp
qed

section \<open>The ledger entries of other paths\<close>

lemma edit_execute_ledger_frame:
  "q \<noteq> full_path s p \<Longrightarrow> snd (snd (edit_execute s p old_string new_string l)) q = l q"
  by (simp add: edit_execute_def Let_def split: prod.splits bool.splits sum.splits)

lemma write_execute_ledger_frame:
  "q \<noteq> full_path s p \<Longrightarrow> snd (snd (write_execute s p c l)) q = l q"
  by (simp add: write_execute_def Let_def split: option.splits sum.splits)

text \<open>
  Claim C10. Whatever \<open>EditTool.execute\<close> or \<open>WriteTool.execute\<close> does on a path, the
  ledger it leaves agrees with the ledger it was given on every path other than the
  resolved target.
\<close>

theorem ledger_frame:
  "q \<noteq> full_path s p \<Longrightarrow>
     snd (snd (edit_execute s p old_string new_string l)) q = l q
     \<and> snd (snd (write_execute s p c l)) q = l q"
  by (simp add: edit_execute_ledger_frame write_execute_ledger_frame)

theorem ledger_frame_witness:
  "''/w/n.ipynb'' \<noteq> full_path example_store ''a.txt''
   \<and> snd (snd (edit_execute example_store ''a.txt'' ''foo'' ''baz''
                 [''/w/a.txt'' \<mapsto> 5, ''/w/n.ipynb'' \<mapsto> 7])) ''/w/n.ipynb'' = Some 7
   \<and> snd (snd (write_execute example_store ''a.txt'' ''new''
                 [''/w/a.txt'' \<mapsto> 5, ''/w/n.ipynb'' \<mapsto> 7])) ''/w/n.ipynb'' = Some 7
   \<and> snd (snd (edit_execute example_store ''a.txt'' ''foo'' ''baz''
                 [''/w/a.txt'' \<mapsto> 5, ''/w/n.ipynb'' \<mapsto> 7])) ''/w/a.txt'' = Some 9"
proof -
  have h: "''/w/n.ipynb'' \<noteq> full_path example_store ''a.txt''" by code_simp
  have t: "snd (snd (edit_execute example_store ''a.txt'' ''foo'' ''baz''
                 [''/w/a.txt'' \<mapsto> 5, ''/w/n.ipynb'' \<mapsto> 7])) ''/w/a.txt'' = Some 9"
    by code_simp
  from h t
    ledger_frame [OF h, of "''foo''" "''baz''" "[''/w/a.txt'' \<mapsto> 5, ''/w/n.ipynb'' \<mapsto> 7]" "''new''"]
  show ?thesis by simp
qed

section \<open>Writing a whole file\<close>

lemma write_execute_create:
  assumes "\<not> path_exists s (full_path s p)"
    and "isdir s (dirname_or_dot (full_path s p))"
  shows "write_execute s p c l =
           (WriteSuccess p c ''create'',
            s\<lparr>nodes := (nodes s)(full_path s p \<mapsto> File c (now s))\<rparr>,
            l(full_path s p \<mapsto> now s))"
  using assms
  by (simp add: write_execute_def makedirs_isdir write_file_def getmtime_def path_exists_def
      Let_def)


lemma makedirs_keeps: "makedirs s d = Inr s1 \<Longrightarrow> cwd s1 = cwd s \<and> now s1 = now s"
  by (auto simp: makedirs_def split: option.splits node.splits)

lemma write_file_result:
  "write_file s1 q c = Inr s2 \<Longrightarrow>
     nodes s2 q = Some (File c (now s1)) \<and> cwd s2 = cwd s1 \<and> now s2 = now s1"
  by (auto simp: write_file_def split: option.splits node.splits)

lemma write_execute_success:
  assumes "write_success (fst (write_execute s p c l))"
  shows "\<exists>ty s'. write_execute s p c l = (WriteSuccess p c ty, s', l(full_path s p \<mapsto> now s))
           \<and> nodes s' (full_path s p) = Some (File c (now s)) \<and> cwd s' = cwd s"
proof -
  let ?q = "full_path s p"
  from assms obtain s1 s2 where m: "makedirs s (dirname_or_dot ?q) = Inr s1"
    and w: "write_file s1 ?q c = Inr s2"
    and r: "write_execute s p c l =
             (WriteSuccess p c (if path_exists s ?q then ''update'' else ''create''), s2,
              (case getmtime s2 ?q of Inl _ \<Rightarrow> l | Inr m \<Rightarrow> l(?q \<mapsto> m)))"
    by (auto simp: write_execute_def write_success_def Let_def
        split: option.splits sum.splits if_splits)
  from makedirs_keeps [OF m] write_file_result [OF w]
  have n: "nodes s2 ?q = Some (File c (now s))" and c: "cwd s2 = cwd s" by simp_all
  from n have "getmtime s2 ?q = Inr (now s)" by (simp add: getmtime_def)
  with r n c show ?thesis by simp
qed

section \<open>Reading back what was written\<close>

lemma concat_readlines_acc: "concat (readlines_acc cur s) = rev cur @ s"
  by (induction s arbitrary: cur) auto

lemma concat_readlines: "concat (readlines s) = s"
  by (simp add: readlines_def concat_readlines_acc)

lemma py_len_le: "py_len s \<le> length s"
  by (simp add: py_len_def)

lemma read_execute_text:
  assumes "nodes s (full_path s p) = Some (File raw m)"
    and "\<not> is_image_file (full_path s p)"
    and "length raw \<le> MAX_OUTPUT_SIZE"
    and "c = universal_newlines raw"
  shows "read_execute s p None None (Some l) =
           (ReadText p c (length (readlines c)) (length (readlines c)) 1,
            Some (l(full_path s p \<mapsto> m)))"
proof -
  from assms(3,4) have "\<not> MAX_OUTPUT_SIZE < py_len c"
    using py_len_le [of c] length_universal_newlines [of raw] by simp
  with assms show ?thesis
    by (simp add: read_execute_def path_exists_def isdir_def getsize_def truthy_def
        read_text_file_def read_file_def read_bytes_def concat_readlines record_read_def
        getmtime_def Let_def)
qed

lemma read_execute_too_large:
  assumes "nodes s (full_path s p) = Some (File c m)"
    and "\<not> is_image_file (full_path s p)"
    and "MAX_OUTPUT_SIZE < length c"
  shows "\<not> read_success (fst (read_execute s p None None (Some l)))"
  using assms
  by (simp add: read_execute_def path_exists_def isdir_def getsize_def truthy_def
      read_success_def Let_def)

lemma read_execute_image:
  assumes "nodes s (full_path s p) = Some (File c m)"
    and "is_image_file (full_path s p)"
    and "length c \<le> MAX_IMAGE_SIZE"
  shows "\<exists>t. fst (read_execute s p None None (Some l)) = ReadImage c t (full_path s p)"
  using assms
  by (simp add: read_execute_def path_exists_def isdir_def getsize_def read_image_file_def
      read_bytes_def record_read_def getmtime_def Let_def)





text \<open>
  Claim C8, as the code has it. After a successful write the ledger entry of the resolved
  path is the modification time of the file just written. If moreover the path has no
  image extension and the content has at most \<open>MAX_OUTPUT_SIZE\<close> bytes and no carriage
  return, a read of the same path without offset and limit succeeds, returns that content
  and leaves the ledger as it is.
\<close>

theorem write_then_read:
  assumes "write_success (fst (write_execute s p c l))"
  shows "case write_execute s p c l of
           (r, s', l') \<Rightarrow>
             (\<exists>m. getmtime s' (full_path s p) = Inr m \<and> l' (full_path s p) = Some m)
             \<and> (\<not> is_image_file (full_path s p) \<and> length c \<le> MAX_OUTPUT_SIZE
                \<and> CHR 0x0D \<notin> set c \<longrightarrow>
                  read_execute s' p None None (Some l') =
                    (ReadText p c (length (readlines c)) (length (readlines c)) 1, Some l'))"
proof -
  from write_execute_success [OF assms] obtain ty s' where
    w: "write_execute s p c l = (WriteSuccess p c ty, s', l(full_path s p \<mapsto> now s))"
    and n: "nodes s' (full_path s p) = Some (File c (now s))" and c: "cwd s' = cwd s"
    by blast
  from c have f: "full_path s' p = full_path s p" by (simp add: full_path_def)
  have g: "getmtime s' (full_path s p) = Inr (now s)" using n by (simp add: getmtime_def)
  have "\<not> is_image_file (full_path s p) \<and> length c \<le> MAX_OUTPUT_SIZE
          \<and> CHR 0x0D \<notin> set c \<longrightarrow>
          read_execute s' p None None (Some (l(full_path s p \<mapsto> now s))) =
            (ReadText p c (length (readlines c)) (length (readlines c)) 1,
             Some (l(full_path s p \<mapsto> now s)))"
  proof
    assume a: "\<not> is_image_file (full_path s p) \<and> length c \<le> MAX_OUTPUT_SIZE
          \<and> CHR 0x0D \<notin> set c"
    then have "c = universal_newlines c" by (simp add: universal_newlines_id)
    with a n f
      read_execute_text [where s = s' and p = p and c = c and raw = c and m = "now s"
        and l = "l(full_path s p \<mapsto> now s)"]
    show "read_execute s' p None None (Some (l(full_path s p \<mapsto> now s))) =
            (ReadText p c (length (readlines c)) (length (readlines c)) 1,
             Some (l(full_path s p \<mapsto> now s)))"
      by simp
  qed
  with w g show ?thesis by simp
qed

theorem write_then_read_witness:
  "write_success (fst (write_execute example_store ''a.txt'' ''new'' [''/w/a.txt'' \<mapsto> 5]))
   \<and> \<not> is_image_file (full_path example_store ''a.txt'')
   \<and> length ''new'' \<le> MAX_OUTPUT_SIZE
   \<and> CHR 0x0D \<notin> set ''new''
   \<and> (case write_execute example_store ''a.txt'' ''new'' [''/w/a.txt'' \<mapsto> 5] of
        (r, s', l') \<Rightarrow>
          (\<exists>m. getmtime s' (full_path example_store ''a.txt'') = Inr m
                \<and> l' (full_path example_store ''a.txt'') = Some m)
          \<and> read_execute s' ''a.txt'' None None (Some l') =
               (ReadText ''a.txt'' ''new'' (length (readlines ''new'')) (length (readlines ''new'')) 1,
                Some l'))"
proof -
  have h: "write_success (fst (write_execute example_store ''a.txt'' ''new'' [''/w/a.txt'' \<mapsto> 5]))"
    by code_simp
  have i: "\<not> is_image_file (full_path example_store ''a.txt'')" by code_simp
  have k: "length ''new'' \<le> MAX_OUTPUT_SIZE" by (simp add: MAX_OUTPUT_SIZE_def)
  have j: "CHR 0x0D \<notin> set ''new''" by simp
  from write_then_read [OF h] i k j h show ?thesis
    by (auto split: prod.splits)
qed

text \<open>
  Claim C8 as stated fails for content beyond the size the read accepts, for a path with
  an image extension and for content with a carriage return: the write of 262145 bytes
  to \<open>big.txt\<close> succeeds and the read that follows fails; the write to \<open>pic.png\<close>
  succeeds and the read that follows hands back an image, which has no text content;
  the write of \<open>"a\rb"\<close> to \<open>cr.txt\<close> succeeds and the read that follows returns
  \<open>"a\nb"\<close>.
\<close>

theorem write_then_read_counterexample:
  "write_success (fst (write_execute example_store ''big.txt'' (replicate 262145 (CHR ''a'')) Map.empty))
   \<and> (case write_execute example_store ''big.txt'' (replicate 262145 (CHR ''a'')) Map.empty of
        (r, s', l') \<Rightarrow> \<not> read_success (fst (read_execute s' ''big.txt'' None None (Some l'))))
   \<and> (case write_execute example_store ''pic.png'' ''new'' Map.empty of
        (r, s', l') \<Rightarrow>
          write_success r
          \<and> (\<exists>t. fst (read_execute s' ''pic.png'' None None (Some l'))
                   = ReadImage ''new'' t ''/w/pic.png''))
   \<and> (case write_execute example_store ''cr.txt'' [CHR ''a'', CHR 0x0D, CHR ''b''] Map.empty of
        (r, s', l') \<Rightarrow>
          write_success r
          \<and> read_content (fst (read_execute s' ''cr.txt'' None None (Some l')))
              = [CHR ''a'', CHR 0x0A, CHR ''b''])"
proof -
  let ?c = "replicate 262145 (CHR ''a'')"
  have e: "\<not> path_exists example_store (full_path example_store ''big.txt'')" by code_simp
  have d: "isdir example_store (dirname_or_dot (full_path example_store ''big.txt''))" by code_simp
  have i: "\<not> is_image_file (full_path example_store ''big.txt'')" by code_simp
  have big: "MAX_OUTPUT_SIZE < length ?c" by (simp add: MAX_OUTPUT_SIZE_def)
  note w = write_execute_create [OF e d, of ?c Map.empty]
  let ?s' = "example_store\<lparr>nodes := (nodes example_store)(full_path example_store ''big.txt'' \<mapsto>
       File ?c (now example_store))\<rparr>"
  have f: "full_path ?s' ''big.txt'' = full_path example_store ''big.txt''"
    by (simp add: full_path_def)
  have n: "nodes ?s' (full_path ?s' ''big.txt'') = Some (File ?c (now example_store))"
    unfolding f by simp
  from i f have i': "\<not> is_image_file (full_path ?s' ''big.txt'')" by simp
  have r: "\<not> read_success (fst (read_execute ?s' ''big.txt'' None None
              (Some (Map.empty(full_path example_store ''big.txt'' \<mapsto> now example_store)))))"
    by (rule read_execute_too_large [OF n i' big])
  have a: "write_success (fst (write_execute example_store ''big.txt'' ?c Map.empty))"
    unfolding w by (simp add: write_success_def)
  have b: "case write_execute example_store ''big.txt'' ?c Map.empty of
        (r, s', l') \<Rightarrow> \<not> read_success (fst (read_execute s' ''big.txt'' None None (Some l')))"
    unfolding w using r by simp
  have e2: "\<not> path_exists example_store (full_path example_store ''pic.png'')" by code_simp
  have d2: "isdir example_store (dirname_or_dot (full_path example_store ''pic.png''))" by code_simp
  have i2: "is_image_file (full_path example_store ''pic.png'')" by code_simp
  have p2: "full_path example_store ''pic.png'' = ''/w/pic.png''" by code_simp
  have small: "length ''new'' \<le> MAX_IMAGE_SIZE" by (simp add: MAX_IMAGE_SIZE_def)
  note w2 = write_execute_create [OF e2 d2, of "''new''" Map.empty]
  let ?s2 = "example_store\<lparr>nodes := (nodes example_store)(full_path example_store ''pic.png'' \<mapsto>
       File ''new'' (now example_store))\<rparr>"
  have f2: "full_path ?s2 ''pic.png'' = full_path example_store ''pic.png''"
    by (simp add: full_path_def)
  have n2: "nodes ?s2 (full_path ?s2 ''pic.png'') = Some (File ''new'' (now example_store))"
    unfolding f2 by simp
  from i2 f2 have i2': "is_image_file (full_path ?s2 ''pic.png'')" by simp
  from read_execute_image [OF n2 i2' small] f2 p2
  have r2: "\<exists>t. fst (read_execute ?s2 ''pic.png'' None None
              (Some (Map.empty(full_path example_store ''pic.png'' \<mapsto> now example_store))))
            = ReadImage ''new'' t ''/w/pic.png''"
    by simp
  have c: "case write_execute example_store ''pic.png'' ''new'' Map.empty of
        (r, s', l') \<Rightarrow>
          write_success r
          \<and> (\<exists>t. fst (read_execute s' ''pic.png'' None None (Some l'))
                   = ReadImage ''new'' t ''/w/pic.png'')"
    unfolding w2 using r2 by (simp add: write_success_def)
  let ?t = "[CHR ''a'', CHR 0x0D, CHR ''b'']"
  have e3: "\<not> path_exists example_store (full_path example_store ''cr.txt'')" by code_simp
  have d3: "isdir example_store (dirname_or_dot (full_path example_store ''cr.txt''))" by code_simp
  have i3: "\<not> is_image_file (full_path example_store ''cr.txt'')" by code_simp
  have k3: "length ?t \<le> MAX_OUTPUT_SIZE" by (simp add: MAX_OUTPUT_SIZE_def)
  have u3: "[CHR ''a'', CHR 0x0A, CHR ''b''] = universal_newlines ?t" by code_simp
  note w3 = write_execute_create [OF e3 d3, of ?t Map.empty]
  let ?s3 = "example_store\<lparr>nodes := (nodes example_store)(full_path example_store ''cr.txt'' \<mapsto>
       File ?t (now example_store))\<rparr>"
  have f3: "full_path ?s3 ''cr.txt'' = full_path example_store ''cr.txt''"
    by (simp add: full_path_def)
  have n3: "nodes ?s3 (full_path ?s3 ''cr.txt'') = Some (File ?t (now example_store))"
    unfolding f3 by simp
  from i3 f3 have i3': "\<not> is_image_file (full_path ?s3 ''cr.txt'')" by simp
  from read_execute_text [OF n3 i3' k3 u3]
  have r3: "read_content (fst (read_execute ?s3 ''cr.txt'' None None
              (Some (Map.empty(full_path example_store ''cr.txt'' \<mapsto> now example_store)))))
            = [CHR ''a'', CHR 0x0A, CHR ''b'']"
    by simp
  have d: "case write_execute example_store ''cr.txt'' ?t Map.empty of
        (r, s', l') \<Rightarrow>
          write_success r
          \<and> read_content (fst (read_execute s' ''cr.txt'' None None (Some l')))
              = [CHR ''a'', CHR 0x0A, CHR ''b'']"
    unfolding w3 using r3 by (simp add: write_success_def)
  from a b c d show ?thesis by (intro conjI)
qed

section \<open>Retrying a rate-limited call\<close>

lemma retry_skip:
  assumes "\<forall>j<k. \<exists>e. create E (calls s + j) (api_messages s) tools = Failure e \<and> is_rate_limited e"
    and "a + k < retry_attempts"
  shows "call_with_retry E tools [a..<retry_attempts] s =
           call_with_retry E tools [a + k..<retry_attempts]
             (s\<lparr>calls := calls s + k,
                slept := slept s @ map (\<lambda>j. backoff_seconds * 2 ^ j) [a..<a + k]\<rparr>)"
  using assms
proof (induction k arbitrary: a s)
  case 0
  then show ?case by simp
next
  case (Suc k)
  from Suc.prems(1) obtain e where
    e: "create E (calls s) (api_messages s) tools = Failure e" "is_rate_limited e"
    by force
  let ?s1 = "s\<lparr>calls := Suc (calls s), slept := slept s @ [backoff_seconds * 2 ^ a]\<rparr>"
  from Suc.prems(2) have a: "a < retry_attempts" "a < retry_attempts - 1" by simp_all
  then have u: "[a..<retry_attempts] = a # [Suc a..<retry_attempts]"
    by (simp add: upt_conv_Cons)
  have step: "call_with_retry E tools [a..<retry_attempts] s =
                call_with_retry E tools [Suc a..<retry_attempts] ?s1"
    unfolding u using e a by simp
  have h: "\<forall>j<k. \<exists>e. create E (calls ?s1 + j) (api_messages ?s1) tools = Failure e
             \<and> is_rate_limited e"
  proof (intro allI impI)
    fix j assume "j < k"
    then have "Suc j < Suc k" by simp
    with Suc.prems(1) have "\<exists>e. create E (calls s + Suc j) (api_messages s) tools = Failure e
             \<and> is_rate_limited e" by blast
    then show "\<exists>e. create E (calls ?s1 + j) (api_messages ?s1) tools = Failure e
             \<and> is_rate_limited e" by simp
  qed
  from Suc.prems(2) have b: "Suc a + k < retry_attempts" by simp
  have l: "[a..<a + Suc k] = a # [Suc a..<Suc a + k]" by (simp add: upt_conv_Cons)
  from Suc.IH [OF h b] step show ?case unfolding l by simp
qed

lemma retry_outcome:
  assumes "a < retry_attempts"
  shows "call_with_retry E tools [a..<retry_attempts] s =
           (case create E (calls s) (api_messages s) tools of
              Response r \<Rightarrow> (Return (Some r), s\<lparr>calls := Suc (calls s)\<rparr>)
            | Failure e \<Rightarrow>
                if is_rate_limited e \<and> a < retry_attempts - 1
                then call_with_retry E tools [Suc a..<retry_attempts]
                       (s\<lparr>calls := Suc (calls s),
                          slept := slept s @ [backoff_seconds * 2 ^ a]\<rparr>)
                else (Raise e, s\<lparr>calls := Suc (calls s)\<rparr>))"
proof -
  from assms have "[a..<retry_attempts] = a # [Suc a..<retry_attempts]"
    by (simp add: upt_conv_Cons)
  then show ?thesis by simp
qed

text \<open>
  Claim C5. An exception is rate-limited when its status is 429 or its lowered text
  contains \<open>rate limit\<close> or \<open>max rpm\<close>. After \<open>k\<close> rate-limited failures in a row, fewer
  than the budget of 10 attempts, the loop has called the model \<open>k\<close> times and slept 2, 4,
  up to \<open>2 * 2 ^ (k - 1)\<close> seconds; the next attempt decides: a response is returned, a
  failure that is not rate-limited is raised at once, and so is any failure of the tenth
  attempt. An exception raised by the loop leaves \<open>query\<close> as that exception.
\<close>

theorem rate_limit_retry:
  assumes "\<forall>j<k. \<exists>e. create E (calls s + j) (api_messages s) tools = Failure e \<and> is_rate_limited e"
    and "k < retry_attempts"
  shows "retry_attempts = 10 \<and> backoff_seconds = 2
       \<and> (is_rate_limited x \<longleftrightarrow>
            status_code x = Some 429 \<or> py_in ''rate limit'' (lower (exn_text x))
            \<or> py_in ''max rpm'' (lower (exn_text x)))
       \<and> (create E (calls s + k) (api_messages s) tools = Response r \<longrightarrow>
            call_with_retry E tools [0..<retry_attempts] s =
              (Return (Some r),
               s\<lparr>calls := calls s + k + 1,
                  slept := slept s @ map (\<lambda>j. 2 * 2 ^ j) [0..<k]\<rparr>))
       \<and> (create E (calls s + k) (api_messages s) tools = Failure e
            \<and> (\<not> is_rate_limited e \<or> k = 9) \<longrightarrow>
            call_with_retry E tools [0..<retry_attempts] s =
              (Raise e,
               s\<lparr>calls := calls s + k + 1,
                  slept := slept s @ map (\<lambda>j. 2 * 2 ^ j) [0..<k]\<rparr>))
       \<and> (call_with_retry E tools [0..<retry_attempts] (s\<lparr>iterations := Suc (iterations s)\<rparr>)
              = (Raise e, s') \<longrightarrow>
            query_loop E tools tool_executor (Suc n) s = (Raise e, s'))"
proof -
  let ?s = "s\<lparr>calls := calls s + k, slept := slept s @ map (\<lambda>j. backoff_seconds * 2 ^ j) [0..<k]\<rparr>"
  from assms have skip: "call_with_retry E tools [0..<retry_attempts] s =
      call_with_retry E tools [k..<retry_attempts] ?s"
    using retry_skip [where a = 0 and k = k and s = s and E = E and tools = tools] by simp
  note out = retry_outcome [OF assms(2), of E tools ?s]
  have ok: "create E (calls s + k) (api_messages s) tools = Response r \<longrightarrow>
            call_with_retry E tools [0..<retry_attempts] s =
              (Return (Some r),
               s\<lparr>calls := calls s + k + 1,
                  slept := slept s @ map (\<lambda>j. 2 * 2 ^ j) [0..<k]\<rparr>)"
    unfolding skip out by (simp add: backoff_seconds_def)
  have bad: "create E (calls s + k) (api_messages s) tools = Failure e
            \<and> (\<not> is_rate_limited e \<or> k = 9) \<longrightarrow>
            call_with_retry E tools [0..<retry_attempts] s =
              (Raise e,
               s\<lparr>calls := calls s + k + 1,
                  slept := slept s @ map (\<lambda>j. 2 * 2 ^ j) [0..<k]\<rparr>)"
    unfolding skip out by (auto simp: backoff_seconds_def retry_attempts_def)
  have thru: "call_with_retry E tools [0..<retry_attempts] (s\<lparr>iterations := Suc (iterations s)\<rparr>)
              = (Raise e, s') \<longrightarrow>
            query_loop E tools tool_executor (Suc n) s = (Raise e, s')"
    by simp
  have cls: "is_rate_limited x \<longleftrightarrow>
            status_code x = Some 429 \<or> py_in ''rate limit'' (lower (exn_text x))
            \<or> py_in ''max rpm'' (lower (exn_text x))"
    by (simp add: is_rate_limited_def Let_def)
  from ok bad thru cls show ?thesis
    by (simp add: retry_attempts_def backoff_seconds_def)
qed

text \<open>
  Two rate-limited failures, the first by its status and the second by its text, and
  then an answer: the loop sleeps 2 and 4 seconds and returns the answer.
\<close>

theorem rate_limit_retry_witness:
  "is_rate_limited (Exn (Some 429) ''Too Many Requests'')
   \<and> is_rate_limited (Exn None ''Rate limit reached for requests'')
   \<and> create limited_env (calls example_state + 0) (api_messages example_state) None
       = Failure (Exn (Some 429) ''Too Many Requests'')
   \<and> create limited_env (calls example_state + 1) (api_messages example_state) None
       = Failure (Exn None ''Rate limit reached for requests'')
   \<and> (2::nat) < retry_attempts
   \<and> create limited_env (calls example_state + 2) (api_messages example_state) None
       = Response final_response
   \<and> call_with_retry limited_env None [0..<retry_attempts] example_state =
       (Return (Some final_response),
        example_state\<lparr>calls := calls example_state + 2 + 1,
                        slept := slept example_state @ map (\<lambda>j. 2 * 2 ^ j) [0..<2]\<rparr>)
   \<and> map (\<lambda>j. 2 * 2 ^ j) [0..<2] = [2, 4 :: nat]"
proof -
  have r1: "is_rate_limited (Exn (Some 429) ''Too Many Requests'')" by code_simp
  have r2: "is_rate_limited (Exn None ''Rate limit reached for requests'')" by code_simp
  have h: "\<forall>j<2. \<exists>e. create limited_env (calls example_state + j) (api_messages example_state) None
                  = Failure e \<and> is_rate_limited e"
  proof (intro allI impI)
    fix j :: nat assume "j < 2"
    then have "j = 0 \<or> j = 1" by auto
    with r1 r2 show "\<exists>e. create limited_env (calls example_state + j) (api_messages example_state) None
                  = Failure e \<and> is_rate_limited e"
      by (auto simp: limited_env_def example_state_def)
  qed
  have b: "(2::nat) < retry_attempts" by (simp add: retry_attempts_def)
  have c: "create limited_env (calls example_state + 2) (api_messages example_state) None
       = Response final_response"
    by (simp add: limited_env_def example_state_def)
  have m: "map (\<lambda>j. 2 * 2 ^ j) [0..<2] = [2, 4 :: nat]" by (simp add: upt_rec)
  from rate_limit_retry [OF h b, where r = final_response] c
  have "call_with_retry limited_env None [0..<retry_attempts] example_state =
       (Return (Some final_response),
        example_state\<lparr>calls := calls example_state + 2 + 1,
                        slept := slept example_state @ map (\<lambda>j. 2 * 2 ^ j) [0..<2]\<rparr>)"
    by blast
  moreover have "create limited_env (calls example_state + 0) (api_messages example_state) None
       = Failure (Exn (Some 429) ''Too Many Requests'')"
    by (simp add: limited_env_def example_state_def)
  moreover have "create limited_env (calls example_state + 1) (api_messages example_state) None
       = Failure (Exn None ''Rate limit reached for requests'')"
    by (simp add: limited_env_def example_state_def)
  ultimately show ?thesis using r1 r2 b c m by (intro conjI)
qed

section \<open>The bound on the iterations\<close>







section \<open>The fan-out and its failures\<close>

lemma execute_parallel_tasks_length:
  "length (execute_parallel_tasks client base task config n fns has_executor limit) = nat n"
  by (simp add: execute_parallel_tasks_def Let_def)

lemma execute_parallel_tasks_nth:
  assumes "i < nat n"
  shows "execute_parallel_tasks client base task config n fns has_executor limit ! i =
           (case execute_agent_task client base
                   (task @ [CHR 0x0A, CHR 0x0A] @ ''Provide a thorough and complete analysis.'')
                   (int i) config fns has_executor limit of
              Raise e \<Rightarrow> failed_result i e
            | Return r \<Rightarrow> r)"
  using assms by (simp add: execute_parallel_tasks_def Let_def)

lemma execute_agent_task_index:
  "execute_agent_task client base task i config fns has_executor limit = Return r \<Longrightarrow>
     agent_index r = i"
  by (auto simp: execute_agent_task_def Let_def split: prod.splits outcome.splits)

text \<open>
  Claim C6. The fan-out returns one result for each of its \<open>n\<close> participants, the
  \<open>i\<close>-th with the agent index \<open>i\<close>: what the participant's query returned, or, when it
  raised, the result with the failure text as content and no tool use. With more than
  one participant \<open>AgentTool.execute\<close> goes on to the synthesis over all of these
  results, and returns whenever the synthesis query returns, whatever the participants
  did.
\<close>

theorem fan_out_tolerates_failures:
  "length (execute_parallel_tasks client base task config n fns has_executor limit) = nat n
   \<and> (\<forall>i < nat n.
         agent_index (execute_parallel_tasks client base task config n fns has_executor limit ! i)
           = int i
         \<and> (case client (int i)
                   [user_message (task @ [CHR 0x0A, CHR 0x0A]
                      @ ''Provide a thorough and complete analysis.'')]
                   (base @ [CHR 0x0A, CHR 0x0A] @ system_prompt config)
                   fns has_executor limit of
               (Raise e, d) \<Rightarrow>
                 execute_parallel_tasks client base task config n fns has_executor limit ! i
                   = \<lparr>agent_index = int i, content = ''Agent execution failed: '' @ exn_text e,
                      agent_tool_use_count = 0, tokens = 0, duration_ms = 0\<rparr>
             | (Return r, d) \<Rightarrow>
                 execute_parallel_tasks client base task config n fns has_executor limit ! i
                   = \<lparr>agent_index = int i, content = q_content r,
                      agent_tool_use_count = q_tool_use_count r, tokens = q_total_tokens r,
                      duration_ms = d\<rparr>))
   \<and> (1 < n \<and> find_agent_by_type agents subagent_type = Some config \<longrightarrow>
        (let results = execute_parallel_tasks client base task config n
                         (agent_functions schema_name config fns) has_executor 10
         in case client (- 1) [user_message (synthesis_prompt task results)]
                   (base @ [CHR 0x0A, CHR 0x0A] @ system_prompt config) None False 1 of
              (Raise e, d) \<Rightarrow>
                agent_tool_execute client base agents schema_name task subagent_type fns
                  has_executor n = Raise e
            | (Return r, d) \<Rightarrow>
                agent_tool_execute client base agents schema_name task subagent_type fns
                  has_executor n
                  = Return \<lparr>at_content = q_content r,
                            at_tool_use_count = sum_list (map agent_tool_use_count results),
                            at_tokens = sum_list (map tokens results) + q_total_tokens r,
                            at_parallel_agents = Some n, at_synthesis = Some True\<rparr>))"
proof -
  have each: "\<forall>i < nat n.
         agent_index (execute_parallel_tasks client base task config n fns has_executor limit ! i)
           = int i
         \<and> (case client (int i)
                   [user_message (task @ [CHR 0x0A, CHR 0x0A]
                      @ ''Provide a thorough and complete analysis.'')]
                   (base @ [CHR 0x0A, CHR 0x0A] @ system_prompt config)
                   fns has_executor limit of
               (Raise e, d) \<Rightarrow>
                 execute_parallel_tasks client base task config n fns has_executor limit ! i
                   = \<lparr>agent_index = int i, content = ''Agent execution failed: '' @ exn_text e,
                      agent_tool_use_count = 0, tokens = 0, duration_ms = 0\<rparr>
             | (Return r, d) \<Rightarrow>
                 execute_parallel_tasks client base task config n fns has_executor limit ! i
                   = \<lparr>agent_index = int i, content = q_content r,
                      agent_tool_use_count = q_tool_use_count r, tokens = q_total_tokens r,
                      duration_ms = d\<rparr>)"
  proof (intro allI impI)
    fix i assume "i < nat n"
    note nth = execute_parallel_tasks_nth [OF this, of client base task config fns
        has_executor limit]
    show "agent_index (execute_parallel_tasks client base task config n fns has_executor limit ! i)
           = int i
         \<and> (case client (int i)
                   [user_message (task @ [CHR 0x0A, CHR 0x0A]
                      @ ''Provide a thorough and complete analysis.'')]
                   (base @ [CHR 0x0A, CHR 0x0A] @ system_prompt config)
                   fns has_executor limit of
               (Raise e, d) \<Rightarrow>
                 execute_parallel_tasks client base task config n fns has_executor limit ! i
                   = \<lparr>agent_index = int i, content = ''Agent execution failed: '' @ exn_text e,
                      agent_tool_use_count = 0, tokens = 0, duration_ms = 0\<rparr>
             | (Return r, d) \<Rightarrow>
                 execute_parallel_tasks client base task config n fns has_executor limit ! i
                   = \<lparr>agent_index = int i, content = q_content r,
                      agent_tool_use_count = q_tool_use_count r, tokens = q_total_tokens r,
                      duration_ms = d\<rparr>)"
      unfolding nth
      by (simp add: execute_agent_task_def failed_result_def Let_def
          split: prod.splits outcome.splits)
  qed
  have synth: "1 < n \<and> find_agent_by_type agents subagent_type = Some config \<longrightarrow>
        (let results = execute_parallel_tasks client base task config n
                         (agent_functions schema_name config fns) has_executor 10
         in case client (- 1) [user_message (synthesis_prompt task results)]
                   (base @ [CHR 0x0A, CHR 0x0A] @ system_prompt config) None False 1 of
              (Raise e, d) \<Rightarrow>
                agent_tool_execute client base agents schema_name task subagent_type fns
                  has_executor n = Raise e
            | (Return r, d) \<Rightarrow>
                agent_tool_execute client base agents schema_name task subagent_type fns
                  has_executor n
                  = Return \<lparr>at_content = q_content r,
                            at_tool_use_count = sum_list (map agent_tool_use_count results),
                            at_tokens = sum_list (map tokens results) + q_total_tokens r,
                            at_parallel_agents = Some n, at_synthesis = Some True\<rparr>)"
    by (simp add: agent_tool_execute_def synthesize_results_def Let_def
        split: prod.splits outcome.splits)
  from execute_parallel_tasks_length each synth show ?thesis by blast
qed

text \<open>
  The scenario of the specification: three participants, the second raises, the others
  answer. The fan-out returns three results, the second one degraded, and the tool
  returns the synthesis.
\<close>

theorem fan_out_tolerates_failures_witness:
  "(0::nat) < nat 3 \<and> (1::nat) < nat 3 \<and> (2::nat) < nat 3 \<and> (1::int) < 3
   \<and> find_agent_by_type [example_config] ''general-purpose'' = Some example_config
   \<and> length (execute_parallel_tasks example_run ''base'' ''task'' example_config 3 None True 10)
       = nat 3
   \<and> execute_parallel_tasks example_run ''base'' ''task'' example_config 3 None True 10 ! 0
       = \<lparr>agent_index = 0, content = ''answer'', agent_tool_use_count = 2, tokens = 10, duration_ms = 5\<rparr>
   \<and> execute_parallel_tasks example_run ''base'' ''task'' example_config 3 None True 10 ! 1
       = \<lparr>agent_index = 1, content = ''Agent execution failed: connection reset'',
          agent_tool_use_count = 0, tokens = 0, duration_ms = 0\<rparr>
   \<and> execute_parallel_tasks example_run ''base'' ''task'' example_config 3 None True 10 ! 2
       = \<lparr>agent_index = 2, content = ''answer'', agent_tool_use_count = 2, tokens = 10, duration_ms = 5\<rparr>
   \<and> (\<exists>u k. agent_tool_execute example_run ''base'' [example_config] Some ''task''
                ''general-purpose'' None True 3
              = Return \<lparr>at_content = ''unified'', at_tool_use_count = u, at_tokens = k,
                        at_parallel_agents = Some 3, at_synthesis = Some True\<rparr>)"
proof -
  have h0: "(0::nat) < nat 3" and h1: "(1::nat) < nat 3" and h2: "(2::nat) < nat 3"
    and h3: "(1::int) < 3" by simp_all
  have f: "find_agent_by_type [example_config] ''general-purpose'' = Some example_config"
    by (simp add: find_agent_by_type_def example_config_def)
  note T = fan_out_tolerates_failures [where client = example_run and base = "''base''"
      and task = "''task''" and config = example_config and n = 3 and fns = None
      and has_executor = True and limit = 10 and agents = "[example_config]"
      and subagent_type = "''general-purpose''" and schema_name = Some]
  note len = T [THEN conjunct1]
  note each = T [THEN conjunct2, THEN conjunct1, rule_format]
  note synth = T [THEN conjunct2, THEN conjunct2, rule_format]
  from each [OF h0]
  have r0: "execute_parallel_tasks example_run ''base'' ''task'' example_config 3 None True 10 ! 0
       = \<lparr>agent_index = 0, content = ''answer'', agent_tool_use_count = 2, tokens = 10, duration_ms = 5\<rparr>"
    by (simp add: example_run_def)
  from each [OF h1]
  have r1: "execute_parallel_tasks example_run ''base'' ''task'' example_config 3 None True 10 ! 1
       = \<lparr>agent_index = 1, content = ''Agent execution failed: connection reset'',
          agent_tool_use_count = 0, tokens = 0, duration_ms = 0\<rparr>"
    by (simp add: example_run_def)
  from each [OF h2]
  have r2: "execute_parallel_tasks example_run ''base'' ''task'' example_config 3 None True 10 ! 2
       = \<lparr>agent_index = 2, content = ''answer'', agent_tool_use_count = 2, tokens = 10, duration_ms = 5\<rparr>"
    by (simp add: example_run_def)
  from synth [OF conjI [OF h3 f]]
  have tool: "\<exists>u k. agent_tool_execute example_run ''base'' [example_config] Some ''task''
                ''general-purpose'' None True 3
              = Return \<lparr>at_content = ''unified'', at_tool_use_count = u, at_tokens = k,
                        at_parallel_agents = Some 3, at_synthesis = Some True\<rparr>"
    by (simp add: example_run_def Let_def)
  from h0 h1 h2 h3 f len r0 r1 r2 tool show ?thesis by (intro conjI)
qed

end
